theory Spec2Isabelle
  imports Complex_Main "HOL-Library.AList"
begin

section \<open>Python values and configuration dictionaries\<close>

text \<open>
  The analyzer (\<^verbatim>\<open>complexity_analyzer.py\<close>) keeps its rule set in a plain Python
  dictionary from string keys to arbitrary values: the presets carry the strings
  \<^verbatim>\<open>name\<close> and \<^verbatim>\<open>description\<close> next to the boolean flags, and a
  project file loaded with \<^verbatim>\<open>json.load\<close> may carry any JSON value. A dictionary is an
  association list in insertion order; \<^verbatim>\<open>d.get(k, default)\<close> is \<open>map_of\<close> with a
  default, \<^verbatim>\<open>d[k] = v\<close> is \<open>AList.update\<close>. \<open>pyval\<close> holds what
  \<^verbatim>\<open>json.load\<close> can return for a standard JSON document; a float is the rational
  number it stands for.
\<close>

datatype pyval =
    PNone
  | PBool bool
  | PInt int
  | PFloat rat
  | PStr string
  | PList "pyval list"
  | PDict "(string \<times> pyval) list"

text \<open>Python truthiness, as the \<^verbatim>\<open>if\<close> statement applies it to a value.\<close>

fun truthy :: "pyval \<Rightarrow> bool" where
  "truthy PNone = False"
| "truthy (PBool b) = b"
| "truthy (PInt i) = (i \<noteq> 0)"
| "truthy (PFloat r) = (r \<noteq> 0)"
| "truthy (PStr s) = (s \<noteq> [])"
| "truthy (PList xs) = (xs \<noteq> [])"
| "truthy (PDict kvs) = (kvs \<noteq> [])"

type_synonym config = "(string \<times> pyval) list"

text \<open>\<^verbatim>\<open>self.config.get(config_key, True)\<close> used as a condition.\<close>

definition config_get :: "config \<Rightarrow> string \<Rightarrow> bool" where
  "config_get cfg key = (case map_of cfg key of None \<Rightarrow> True | Some v \<Rightarrow> truthy v)"

text \<open>\<^verbatim>\<open>d.update(other)\<close>: every item of \<open>other\<close>, in order, is stored in \<open>d\<close>.\<close>

definition dict_update :: "config \<Rightarrow> config \<Rightarrow> config" where
  "dict_update d other = fold (\<lambda>(k, v) acc. AList.update k v acc) other d"

definition strict_mccabe :: config where
  "strict_mccabe =
    [(''name'', PStr ''Strict McCabe''),
     (''description'', PStr ''Original McCabe complexity (minimal)''),
     (''countIf'', PBool True),
     (''countWhile'', PBool True),
     (''countFor'', PBool True),
     (''countExcept'', PBool True),
     (''countAssert'', PBool False),
     (''countBoolOp'', PBool False),
     (''countTernary'', PBool True),
     (''countComprehension'', PBool False),
     (''countComprehensionIf'', PBool False),
     (''countMatch'', PBool True),
     (''countWith'', PBool False)]"

definition standard :: config where
  "standard =
    [(''name'', PStr ''Standard (Industry Common)''),
     (''description'', PStr ''Common industry standard (Radon, ESLint)''),
     (''countIf'', PBool True),
     (''countWhile'', PBool True),
     (''countFor'', PBool True),
     (''countExcept'', PBool True),
     (''countAssert'', PBool False),
     (''countBoolOp'', PBool True),
     (''countTernary'', PBool True),
     (''countComprehension'', PBool True),
     (''countComprehensionIf'', PBool True),
     (''countMatch'', PBool True),
     (''countWith'', PBool False)]"

definition comprehensive :: config where
  "comprehensive =
    [(''name'', PStr ''Comprehensive''),
     (''description'', PStr ''Most conservative (SonarQube-like)''),
     (''countIf'', PBool True),
     (''countWhile'', PBool True),
     (''countFor'', PBool True),
     (''countExcept'', PBool True),
     (''countAssert'', PBool True),
     (''countBoolOp'', PBool True),
     (''countTernary'', PBool True),
     (''countComprehension'', PBool True),
     (''countComprehensionIf'', PBool True),
     (''countMatch'', PBool True),
     (''countWith'', PBool True)]"

definition PRESETS :: "(string \<times> config) list" where
  "PRESETS =
    [(''strict_mccabe'', strict_mccabe),
     (''standard'', standard),
     (''comprehensive'', comprehensive)]"

section \<open>Syntax trees\<close>

text \<open>
  The tree comes from Python's own \<^verbatim>\<open>ast.parse\<close>. A node is its class, the
  attributes the analyzer reads (position and \<^verbatim>\<open>name\<close>), and its fields in the
  order \<^verbatim>\<open>ast.iter_fields\<close> yields them; a field holds the child nodes stored
  under it (a single child is a one-element list, an absent optional child the empty
  list). The classes the analyzer tests for have a constructor of their own, every other
  class is \<open>ast_Other\<close> with its name.
\<close>

datatype cls =
    ast_Module
  | ast_ClassDef
  | ast_FunctionDef
  | ast_AsyncFunctionDef
  | ast_If
  | ast_While
  | ast_For
  | ast_ExceptHandler
  | ast_Assert
  | ast_With
  | ast_IfExp
  | ast_BoolOp
  | ast_And
  | ast_Or
  | ast_ListComp
  | ast_SetComp
  | ast_DictComp
  | ast_GeneratorExp
  | ast_comprehension
  | ast_Match
  | ast_match_case
  | ast_MatchAs
  | ast_Other string

record attributes =
  lineno :: "int option"
  col_offset :: "int option"
  end_lineno :: "int option"
  end_col_offset :: "int option"
  name :: "string option"

datatype node = Node (cls: cls) (attrs: attributes) (node_fields: "(string \<times> node list) list")

text \<open>\<^verbatim>\<open>node.f\<close> for a field holding nodes, and \<^verbatim>\<open>getattr(node, 'lineno', 0)\<close>.\<close>

definition field :: "node \<Rightarrow> string \<Rightarrow> node list" where
  "field n f = (case map_of (node_fields n) f of None \<Rightarrow> [] | Some xs \<Rightarrow> xs)"

definition lineno_or :: "node \<Rightarrow> int \<Rightarrow> int" where
  "lineno_or n d = (case lineno (attrs n) of None \<Rightarrow> d | Some l \<Rightarrow> l)"

section \<open>Records of the engine\<close>

record ComplexityDetail =
  type :: string
  line :: int
  amount :: int
  description :: string

text \<open>
  The \<^verbatim>\<open>function_info\<close> dictionary of \<^verbatim>\<open>_visit_function\<close>. Name and position
  are stored as the node carries them.
\<close>

record function_info =
  name :: "string option"
  line :: "int option"
  col :: "int option"
  end_line :: "int option"
  end_col :: "int option"
  is_async :: bool
  complexity :: int
  details :: "ComplexityDetail list"

record visitor =
  "functions" :: "function_info list"
  current_function :: "function_info option"
  config :: config

record counter =
  complexity :: int
  config :: config
  collect_details :: bool
  details :: "ComplexityDetail list"

section \<open>The counting pass: \<^verbatim>\<open>ComplexityCounter\<close>\<close>

definition ComplexityCounter :: "config \<Rightarrow> bool \<Rightarrow> counter" where
  "ComplexityCounter cfg cd =
     \<lparr>complexity = 1, config = cfg, collect_details = cd, details = []\<rparr>"

definition add_complexity :: "int \<Rightarrow> string \<Rightarrow> int \<Rightarrow> string \<Rightarrow> counter \<Rightarrow> counter" where
  "add_complexity amt node_type lnum descr self =
     self\<lparr>complexity := counter.complexity self + amt,
          details := (if collect_details self
                      then counter.details self @
                           [\<lparr>type = node_type, line = lnum, amount = amt, description = descr\<rparr>]
                      else counter.details self)\<rparr>"

text \<open>The registry: node class, then type name, description and configuration key.\<close>

definition SIMPLE_HANDLERS :: "(cls \<times> string \<times> string \<times> string) list" where
  "SIMPLE_HANDLERS =
    [(ast_If, ''if'', ''if statement'', ''countIf''),
     (ast_While, ''while'', ''while loop'', ''countWhile''),
     (ast_For, ''for'', ''for loop'', ''countFor''),
     (ast_ExceptHandler, ''except'', ''exception handler'', ''countExcept''),
     (ast_Assert, ''assert'', ''assert statement'', ''countAssert''),
     (ast_With, ''with'', ''with statement'', ''countWith''),
     (ast_IfExp, ''ternary'', ''ternary expression'', ''countTernary'')]"

text \<open>
  The \<^verbatim>\<open>for\<close> loop of \<^verbatim>\<open>ComplexityCounter.visit\<close> over the registry: the
  first entry whose class the node has decides, and the loop breaks there whether or not
  the flag is set.
\<close>

fun simple_handlers :: "(cls \<times> string \<times> string \<times> string) list \<Rightarrow> node \<Rightarrow> counter \<Rightarrow> counter" where
  "simple_handlers [] n self = self"
| "simple_handlers ((node_class, type_name, desc, config_key) # hs) n self =
     (if cls n = node_class
      then (if config_get (counter.config self) config_key
            then add_complexity 1 type_name (lineno_or n 0) desc self
            else self)
      else simple_handlers hs n self)"

text \<open>
  \<^verbatim>\<open>ComplexityCounter.visit\<close> replaces \<^verbatim>\<open>ast.NodeVisitor.visit\<close>: it runs the
  registry loop and then \<^verbatim>\<open>generic_visit\<close>, whose two loops (over the fields, and
  over the nodes of a field) call \<^verbatim>\<open>self.visit\<close> on every child. It never looks up
  a \<^verbatim>\<open>visit_<Class>\<close> method.
\<close>

fun counter_visit :: "counter \<Rightarrow> node \<Rightarrow> counter"
and counter_visit_fields :: "counter \<Rightarrow> (string \<times> node list) list \<Rightarrow> counter"
and counter_visit_items :: "counter \<Rightarrow> node list \<Rightarrow> counter" where
  "counter_visit self (Node c a fs) =
     counter_visit_fields (simple_handlers SIMPLE_HANDLERS (Node c a fs) self) fs"
| "counter_visit_fields self [] = self"
| "counter_visit_fields self ((f, v) # rest) =
     counter_visit_fields (counter_visit_items self v) rest"
| "counter_visit_items self [] = self"
| "counter_visit_items self (item # items) =
     counter_visit_items (counter_visit self item) items"

definition generic_visit :: "counter \<Rightarrow> node \<Rightarrow> counter" where
  "generic_visit self n = counter_visit_fields self (node_fields n)"

subsection \<open>The \<^verbatim>\<open>visit_<Class>\<close> methods of the counter\<close>

text \<open>
  The class also defines \<^verbatim>\<open>visit_BoolOp\<close>, four comprehension methods and
  \<^verbatim>\<open>visit_Match\<close>. They are modelled as the source writes them; \<open>counter_visit\<close>
  above does not call them, since the overriding \<^verbatim>\<open>visit\<close> does no dispatch on the
  class name. These methods read \<^verbatim>\<open>node.lineno\<close> directly; every expression and
  statement of a parsed tree has one, and the model reads a missing one as 0. The
  description of a chain is an f-string with the amount in decimal.
\<close>

definition digit_char :: "nat \<Rightarrow> char" where
  "digit_char d = ''0123456789'' ! d"

fun str_nat :: "nat \<Rightarrow> string" where
  "str_nat n = (if n < 10 then [digit_char n] else str_nat (n div 10) @ [digit_char (n mod 10)])"

definition str_int :: "int \<Rightarrow> string" where
  "str_int i = (if i < 0 then CHR ''-'' # str_nat (nat (- i)) else str_nat (nat i))"

definition visit_BoolOp :: "counter \<Rightarrow> node \<Rightarrow> counter" where
  "visit_BoolOp self n =
     generic_visit
       (if config_get (counter.config self) ''countBoolOp''
        then (if map cls (field n ''op'') = [ast_And] \<or> map cls (field n ''op'') = [ast_Or]
              then (let op_name = (if map cls (field n ''op'') = [ast_And] then ''and'' else ''or'');
                        amt = int (length (field n ''values'')) - 1
                    in add_complexity amt ''bool_op'' (lineno_or n 0)
                         (str_int amt @ '' '' @ op_name @ '' operator(s)'') self)
              else self)
        else self) n"

text \<open>
  \<^verbatim>\<open>_handle_comprehension\<close>: the outer loop over \<^verbatim>\<open>node.generators\<close>, the inner
  one over \<^verbatim>\<open>comp.ifs\<close>.
\<close>

fun comprehension_ifs :: "node \<Rightarrow> node list \<Rightarrow> counter \<Rightarrow> counter" where
  "comprehension_ifs n [] self = self"
| "comprehension_ifs n (if_clause # ifs) self =
     comprehension_ifs n ifs (add_complexity 1 ''comp_if'' (lineno_or n 0) ''comprehension if'' self)"

fun comprehension_generators :: "node \<Rightarrow> string \<Rightarrow> string \<Rightarrow> node list \<Rightarrow> counter \<Rightarrow> counter" where
  "comprehension_generators n comp_type descr [] self = self"
| "comprehension_generators n comp_type descr (comp' # comps) self =
     comprehension_generators n comp_type descr comps
       (let self' = add_complexity 1 comp_type (lineno_or n 0) descr self
        in if config_get (counter.config self') ''countComprehensionIf''
           then comprehension_ifs n (field comp' ''ifs'') self'
           else self')"

definition handle_comprehension :: "counter \<Rightarrow> node \<Rightarrow> string \<Rightarrow> string \<Rightarrow> counter" where
  "handle_comprehension self n comp_type descr =
     (if \<not> config_get (counter.config self) ''countComprehension'' then self
      else comprehension_generators n comp_type descr (field n ''generators'') self)"

definition visit_ListComp :: "counter \<Rightarrow> node \<Rightarrow> counter" where
  "visit_ListComp self n =
     generic_visit (handle_comprehension self n ''list_comp'' ''list comprehension'') n"

definition visit_SetComp :: "counter \<Rightarrow> node \<Rightarrow> counter" where
  "visit_SetComp self n =
     generic_visit (handle_comprehension self n ''set_comp'' ''set comprehension'') n"

definition visit_DictComp :: "counter \<Rightarrow> node \<Rightarrow> counter" where
  "visit_DictComp self n =
     generic_visit (handle_comprehension self n ''dict_comp'' ''dict comprehension'') n"

definition visit_GeneratorExp :: "counter \<Rightarrow> node \<Rightarrow> counter" where
  "visit_GeneratorExp self n =
     generic_visit (handle_comprehension self n ''gen_exp'' ''generator expression'') n"

text \<open>
  \<^verbatim>\<open>visit_Match\<close>: a case counts unless its pattern is a \<^verbatim>\<open>MatchAs\<close> whose
  \<^verbatim>\<open>name\<close> is \<^verbatim>\<open>None\<close>.
\<close>

fun match_cases :: "node \<Rightarrow> node list \<Rightarrow> counter \<Rightarrow> counter" where
  "match_cases n [] self = self"
| "match_cases n (case' # cases) self =
     match_cases n cases
       (if map cls (field case' ''pattern'') \<noteq> [ast_MatchAs]
           \<or> map (\<lambda>p. attributes.name (attrs p)) (field case' ''pattern'') \<noteq> [None]
        then add_complexity 1 ''match_case'' (lineno_or n 0) ''match case'' self
        else self)"

definition visit_Match :: "counter \<Rightarrow> node \<Rightarrow> counter" where
  "visit_Match self n =
     generic_visit
       (if config_get (counter.config self) ''countMatch''
        then match_cases n (field n ''cases'') self
        else self) n"

section \<open>Function discovery: \<^verbatim>\<open>ComplexityVisitor\<close>\<close>

text \<open>
  \<^verbatim>\<open>config or PRESETS['standard']\<close>: a missing or empty dictionary gives the
  standard preset.
\<close>

definition ComplexityVisitor :: "config option \<Rightarrow> visitor" where
  "ComplexityVisitor cfg =
     \<lparr>functions = [], current_function = None,
      config = (case cfg of None \<Rightarrow> standard | Some c \<Rightarrow> if c = [] then standard else c)\<rparr>"

text \<open>
  \<^verbatim>\<open>_visit_function\<close> runs a fresh counter over the function's node, appends the
  record and restores the saved \<^verbatim>\<open>current_function\<close>. It does not call
  \<^verbatim>\<open>generic_visit\<close>, so the visitor does not go on into the function's body.
\<close>

definition visit_function :: "visitor \<Rightarrow> node \<Rightarrow> bool \<Rightarrow> visitor" where
  "visit_function self n async =
     (let parent_function = current_function self;
          info = \<lparr>name = attributes.name (attrs n), line = lineno (attrs n),
                  col = col_offset (attrs n), end_line = end_lineno (attrs n),
                  end_col = end_col_offset (attrs n), is_async = async,
                  complexity = 1, details = []\<rparr>;
          self1 = self\<lparr>current_function := Some info\<rparr>;
          cnt = counter_visit (ComplexityCounter (visitor.config self1) True) n;
          info' = info\<lparr>function_info.complexity := counter.complexity cnt,
                       function_info.details := counter.details cnt\<rparr>
      in self1\<lparr>functions := functions self1 @ [info'], current_function := parent_function\<rparr>)"

definition visit_FunctionDef :: "visitor \<Rightarrow> node \<Rightarrow> visitor" where
  "visit_FunctionDef self n = visit_function self n False"

definition visit_AsyncFunctionDef :: "visitor \<Rightarrow> node \<Rightarrow> visitor" where
  "visit_AsyncFunctionDef self n = visit_function self n True"

text \<open>
  The visitor keeps \<^verbatim>\<open>ast.NodeVisitor.visit\<close>: a node of class \<^verbatim>\<open>C\<close> goes to
  \<^verbatim>\<open>visit_C\<close> when the visitor defines it, to \<^verbatim>\<open>generic_visit\<close> otherwise.
\<close>

fun visitor_visit :: "visitor \<Rightarrow> node \<Rightarrow> visitor"
and visitor_visit_fields :: "visitor \<Rightarrow> (string \<times> node list) list \<Rightarrow> visitor"
and visitor_visit_items :: "visitor \<Rightarrow> node list \<Rightarrow> visitor" where
  "visitor_visit self (Node c a fs) =
     (if c = ast_FunctionDef then visit_FunctionDef self (Node c a fs)
      else if c = ast_AsyncFunctionDef then visit_AsyncFunctionDef self (Node c a fs)
      else visitor_visit_fields self fs)"
| "visitor_visit_fields self [] = self"
| "visitor_visit_fields self ((f, v) # rest) =
     visitor_visit_fields (visitor_visit_items self v) rest"
| "visitor_visit_items self [] = self"
| "visitor_visit_items self (item # items) =
     visitor_visit_items (visitor_visit self item) items"

section \<open>Configuration resolution\<close>

text \<open>
  What the resolver reads from outside: for every directory, given by the components of
  its absolute path (the root is \<open>[]\<close>), the state of the file \<^verbatim>\<open>.complexity.json\<close>
  in it; and the value of the environment variable \<^verbatim>\<open>COMPLEXITY_PRESET\<close>. A file that
  exists is either \<open>Unreadable\<close> (\<^verbatim>\<open>open\<close> or \<^verbatim>\<open>json.load\<close> raises an
  \<^verbatim>\<open>Exception\<close>, whose text is kept) or \<open>Loaded\<close> with the value
  \<^verbatim>\<open>json.load\<close> returns, which is whatever JSON document the file holds: an object,
  but also a list, a string, a number, \<^verbatim>\<open>true\<close>, \<^verbatim>\<open>false\<close> or \<^verbatim>\<open>null\<close>.
\<close>

datatype config_file = Missing | Unreadable string | Loaded pyval

type_synonym filesystem = "string list \<Rightarrow> config_file"

text \<open>
  The exceptions the resolver can raise, each with what \<^verbatim>\<open>str(e)\<close> shows of it:
  the key for a \<^verbatim>\<open>KeyError\<close>, the message for the other two.
\<close>

datatype error = KeyError string | TypeError string | ValueError string

definition str_error :: "error \<Rightarrow> string" where
  "str_error e =
     (case e of
        KeyError k \<Rightarrow> CHR 0x27 # k @ [CHR 0x27]
      | TypeError m \<Rightarrow> m
      | ValueError m \<Rightarrow> m)"

text \<open>\<^verbatim>\<open>PRESETS[key]\<close> raises \<^verbatim>\<open>KeyError\<close> on a key that is not there.\<close>

definition PRESETS_getitem :: "string \<Rightarrow> error + config" where
  "PRESETS_getitem key =
     (case map_of PRESETS key of None \<Rightarrow> Inl (KeyError key) | Some c \<Rightarrow> Inr c)"

subsection \<open>\<^verbatim>\<open>dict.update\<close> on a value that need not be a dictionary\<close>

text \<open>
  \<^verbatim>\<open>config.update(project_config)\<close> takes whatever \<^verbatim>\<open>json.load\<close> returned. A
  dictionary is merged key by key. Any other argument is iterated, and each element must
  itself be a sequence of length 2, a key and a value: a list of two elements, a string of
  two characters, or a dictionary of two keys (iterated, it gives its keys). A number or a
  boolean is not iterable, and a string gives its characters, each of length 1. An element
  whose key is a list or a dictionary cannot be hashed. The messages are those of
  CPython 3.11.

  \<open>update_element i x\<close> is element number \<open>i\<close> of the sequence: an error, or the item to
  store. An item whose key is not a string (a number, a boolean, \<^verbatim>\<open>None\<close>) is stored
  under a key that no lookup of the analyzer uses, all of them being strings; the model
  keeps the string-keyed part of the dictionary, where such an item changes nothing
  (\<open>Inr None\<close>).
\<close>

definition length_message :: "nat \<Rightarrow> nat \<Rightarrow> string" where
  "length_message i n =
     ''dictionary update sequence element #'' @ str_int (int i) @ '' has length '' @
     str_int (int n) @ ''; 2 is required''"

definition update_element :: "nat \<Rightarrow> pyval \<Rightarrow> error + (string \<times> pyval) option" where
  "update_element i x =
     (case x of
        PList [k, v] \<Rightarrow>
          (case k of
             PStr s \<Rightarrow> Inr (Some (s, v))
           | PList ks \<Rightarrow> Inl (TypeError (''unhashable type: '' @ CHR 0x27 # ''list'' @ [CHR 0x27]))
           | PDict kvs \<Rightarrow> Inl (TypeError (''unhashable type: '' @ CHR 0x27 # ''dict'' @ [CHR 0x27]))
           | _ \<Rightarrow> Inr None)
      | PList xs \<Rightarrow> Inl (ValueError (length_message i (length xs)))
      | PStr [a, b] \<Rightarrow> Inr (Some ([a], PStr [b]))
      | PStr cs \<Rightarrow> Inl (ValueError (length_message i (length cs)))
      | PDict [(k1, v1), (k2, v2)] \<Rightarrow> Inr (Some (k1, PStr k2))
      | PDict kvs \<Rightarrow> Inl (ValueError (length_message i (length kvs)))
      | _ \<Rightarrow>
          Inl (TypeError (''cannot convert dictionary update sequence element #'' @
                 str_int (int i) @ '' to a sequence'')))"

fun update_elements :: "nat \<Rightarrow> pyval list \<Rightarrow> error + config" where
  "update_elements i [] = Inr []"
| "update_elements i (x # xs) =
     (case update_element i x of
        Inl e \<Rightarrow> Inl e
      | Inr item \<Rightarrow>
          (case update_elements (Suc i) xs of
             Inl e \<Rightarrow> Inl e
           | Inr rest \<Rightarrow> Inr ((case item of None \<Rightarrow> [] | Some kv \<Rightarrow> [kv]) @ rest)))"

definition not_iterable :: "string \<Rightarrow> error" where
  "not_iterable type_name =
     TypeError (CHR 0x27 # type_name @ CHR 0x27 # '' object is not iterable'')"

text \<open>The string-keyed items \<^verbatim>\<open>dict.update(v)\<close> stores, or the exception it raises.\<close>

definition update_items :: "pyval \<Rightarrow> error + config" where
  "update_items v =
     (case v of
        PDict kvs \<Rightarrow> Inr kvs
      | PList xs \<Rightarrow> update_elements 0 xs
      | PStr cs \<Rightarrow> update_elements 0 (map (\<lambda>c. PStr [c]) cs)
      | PNone \<Rightarrow> Inl (not_iterable ''NoneType'')
      | PBool b \<Rightarrow> Inl (not_iterable ''bool'')
      | PInt i \<Rightarrow> Inl (not_iterable ''int'')
      | PFloat r \<Rightarrow> Inl (not_iterable ''float''))"

definition dict_update_value :: "config \<Rightarrow> pyval \<Rightarrow> error + config" where
  "dict_update_value d v =
     (case update_items v of Inl e \<Rightarrow> Inl e | Inr items \<Rightarrow> Inr (dict_update d items))"

subsection \<open>\<^verbatim>\<open>find_project_config\<close> and \<^verbatim>\<open>load_config\<close>\<close>

definition path_str :: "string list \<Rightarrow> string" where
  "path_str dir = concat (map (\<lambda>c. CHR ''/'' # c) dir)"

definition warning :: "string list \<Rightarrow> string \<Rightarrow> string" where
  "warning dir e =
     ''Warning: Failed to load '' @ path_str dir @ ''/.complexity.json'' @ '': '' @ e"

text \<open>
  The \<^verbatim>\<open>while\<close> loop of \<^verbatim>\<open>find_project_config\<close>. It returns the value loaded,
  if any, and the lines printed to \<^verbatim>\<open>sys.stderr\<close>. The value is returned as
  \<^verbatim>\<open>json.load\<close> gives it, with no test that it is a dictionary.
\<close>

function find_project_config_loop :: "filesystem \<Rightarrow> string list \<Rightarrow> pyval option \<times> string list" where
  "find_project_config_loop fs current_dir =
     (if current_dir = [] then (None, [])
      else (case fs current_dir of
              Loaded v \<Rightarrow> (Some v, [])
            | Unreadable e \<Rightarrow> (None, [warning current_dir e])
            | Missing \<Rightarrow>
                (let parent = butlast current_dir
                 in if parent = current_dir then (None, [])
                    else find_project_config_loop fs parent)))"
  by pat_completeness auto
termination
  by (relation "measure (\<lambda>(fs, d). length d)") auto

declare find_project_config_loop.simps [simp del]

text \<open>\<open>file_path\<close> is the absolute path of the analysed file, by components.\<close>

definition find_project_config :: "filesystem \<Rightarrow> string list \<Rightarrow> pyval option \<times> string list" where
  "find_project_config fs file_path = find_project_config_loop fs (butlast file_path)"

text \<open>
  \<^verbatim>\<open>load_config\<close>. \<^verbatim>\<open>if project_config:\<close> is Python truthiness, and the update
  that follows raises on a value that is not a dictionary nor a sequence of pairs; the
  function has no \<^verbatim>\<open>try\<close>, so the exception leaves it.
\<close>

definition load_config ::
  "filesystem \<Rightarrow> string option \<Rightarrow> string list \<Rightarrow> string option \<Rightarrow> (error + config) \<times> string list" where
  "load_config fs env file_path preset =
     (case (case preset of
              None \<Rightarrow> PRESETS_getitem ''standard''
            | Some p \<Rightarrow> if p \<noteq> [] \<and> p \<in> set (map fst PRESETS)
                        then PRESETS_getitem p
                        else PRESETS_getitem ''standard'') of
        Inl e \<Rightarrow> (Inl e, [])
      | Inr config0 \<Rightarrow>
          (let (project_config, stderr) = find_project_config fs file_path
           in (case (case project_config of
                       None \<Rightarrow> Inr config0
                     | Some pc \<Rightarrow> if truthy pc then dict_update_value config0 pc
                                  else Inr config0) of
                 Inl e \<Rightarrow> (Inl e, stderr)
               | Inr config1 \<Rightarrow>
                   (case env of
                      None \<Rightarrow> (Inr config1, stderr)
                    | Some preset_name \<Rightarrow>
                        if preset_name \<noteq> [] \<and> preset_name \<in> set (map fst PRESETS)
                        then (case PRESETS_getitem preset_name of
                                Inl e \<Rightarrow> (Inl e, stderr)
                              | Inr p \<Rightarrow> (Inr (dict_update config1 p), stderr))
                        else (Inr config1, stderr)))))"

section \<open>\<^verbatim>\<open>analyze_file\<close> and the command line\<close>

text \<open>
  Reading and parsing the analysed file is Python's work; its outcome is an input of the
  model. A failure result always has the empty list under \<^verbatim>\<open>functions\<close>, which the
  model leaves out. \<open>file_arg\<close> is the path as the caller wrote it, which the
  file-not-found message repeats; \<open>file_path\<close> is its absolute form, by components,
  which the search for the override file starts from.
\<close>

datatype source =
    Parsed node
  | SyntaxError_raised string "int option"
  | FileNotFoundError_raised
  | Exception_raised string

datatype analysis_result =
    Success (result_functions: "function_info list") (total_functions: int) (config_used: pyval)
  | Failure (error: string) (error_type: string) (error_line: "pyval option")

definition success :: "analysis_result \<Rightarrow> bool" where
  "success r = (case r of Success fs t c \<Rightarrow> True | Failure e t l \<Rightarrow> False)"

definition run_visitor :: "config \<Rightarrow> node \<Rightarrow> analysis_result" where
  "run_visitor cfg tree =
     (let v = visitor_visit (ComplexityVisitor (Some cfg)) tree
      in Success (functions v) (int (length (functions v)))
           (case map_of cfg ''name'' of None \<Rightarrow> PStr ''custom'' | Some x \<Rightarrow> x))"

text \<open>
  \<^verbatim>\<open>analyze_file\<close>. With no configuration given it calls \<^verbatim>\<open>load_config\<close> inside
  its \<^verbatim>\<open>try\<close>, after the file has been read and parsed; an exception of
  \<^verbatim>\<open>load_config\<close> is caught by \<^verbatim>\<open>except Exception\<close> and becomes a failure of
  type \<^verbatim>\<open>unknown\<close>.
\<close>

definition analyze_file ::
  "filesystem \<Rightarrow> string option \<Rightarrow> string \<Rightarrow> string list \<Rightarrow> source \<Rightarrow> config option
     \<Rightarrow> analysis_result \<times> string list" where
  "analyze_file fs env file_arg file_path src cfg =
     (case src of
        Parsed tree \<Rightarrow>
          (case cfg of
             Some c \<Rightarrow> (run_visitor c tree, [])
           | None \<Rightarrow>
               (case load_config fs env file_path None of
                  (Inl e, stderr) \<Rightarrow> (Failure (str_error e) ''unknown'' None, stderr)
                | (Inr c, stderr) \<Rightarrow> (run_visitor c tree, stderr)))
      | SyntaxError_raised msg l \<Rightarrow>
          (Failure (''Syntax error: '' @ msg @ '' at line '' @
                      (case l of None \<Rightarrow> ''None'' | Some i \<Rightarrow> str_int i))
             ''syntax'' (Some (case l of None \<Rightarrow> PNone | Some i \<Rightarrow> PInt i)), [])
      | FileNotFoundError_raised \<Rightarrow>
          (Failure (''File not found: '' @ file_arg) ''file_not_found'' None, [])
      | Exception_raised msg \<Rightarrow> (Failure msg ''unknown'' None, []))"

text \<open>
  \<^verbatim>\<open>main\<close> with a file path: the configuration is loaded first, outside any
  \<^verbatim>\<open>try\<close>, and handed to \<^verbatim>\<open>analyze_file\<close>. An exception of \<^verbatim>\<open>load_config\<close>
  ends the process with a traceback and no result (\<open>Inl\<close>).
\<close>

definition main_analysis ::
  "filesystem \<Rightarrow> string option \<Rightarrow> string \<Rightarrow> string list \<Rightarrow> string option \<Rightarrow> source
     \<Rightarrow> (error + analysis_result) \<times> string list" where
  "main_analysis fs env file_arg file_path preset src =
     (case load_config fs env file_path preset of
        (Inl e, stderr) \<Rightarrow> (Inl e, stderr)
      | (Inr c, stderr) \<Rightarrow>
          (let (r, stderr') = analyze_file fs env file_arg file_path src (Some c)
           in (Inr r, stderr @ stderr')))"

section \<open>What a pass computes, as a function of the tree\<close>

text \<open>
  The contribution of the registry loop at one node, and the contributions of a whole
  subtree in the order of the traversal. \<open>record_points\<close> is the effect on a counter of
  recording a list of contributions.
\<close>

definition registry_points :: "config \<Rightarrow> node \<Rightarrow> ComplexityDetail list" where
  "registry_points cfg n =
     (case map_of SIMPLE_HANDLERS (cls n) of
        None \<Rightarrow> []
      | Some (type_name, desc, config_key) \<Rightarrow>
          if config_get cfg config_key
          then [\<lparr>type = type_name, line = lineno_or n 0, amount = 1, description = desc\<rparr>]
          else [])"

fun points :: "config \<Rightarrow> node \<Rightarrow> ComplexityDetail list"
and points_fields :: "config \<Rightarrow> (string \<times> node list) list \<Rightarrow> ComplexityDetail list"
and points_items :: "config \<Rightarrow> node list \<Rightarrow> ComplexityDetail list" where
  "points cfg (Node c a fs) = registry_points cfg (Node c a fs) @ points_fields cfg fs"
| "points_fields cfg [] = []"
| "points_fields cfg ((f, v) # rest) = points_items cfg v @ points_fields cfg rest"
| "points_items cfg [] = []"
| "points_items cfg (item # items) = points cfg item @ points_items cfg items"

definition record_points :: "ComplexityDetail list \<Rightarrow> counter \<Rightarrow> counter" where
  "record_points ps self =
     self\<lparr>complexity := counter.complexity self + sum_list (map amount ps),
          details := (if collect_details self then counter.details self @ ps
                      else counter.details self)\<rparr>"

text \<open>The pass \<^verbatim>\<open>_visit_function\<close> runs: a fresh counter that collects details.\<close>

definition counting_pass :: "config \<Rightarrow> node \<Rightarrow> counter" where
  "counting_pass cfg n = counter_visit (ComplexityCounter cfg True) n"

subsection \<open>Nested function definitions, in the specification's words\<close>

definition is_function_def :: "node \<Rightarrow> bool" where
  "is_function_def n = (cls n = ast_FunctionDef \<or> cls n = ast_AsyncFunctionDef)"

text \<open>
  \<open>own_points\<close> are the contributions of a function's own body: the traversal of the
  specification, which stops at every function definition below the starting node.
  \<open>nested_points\<close> are the contributions that lie inside function definitions below
  the starting node.
\<close>

fun own_points :: "config \<Rightarrow> node \<Rightarrow> ComplexityDetail list"
and own_points_fields :: "config \<Rightarrow> (string \<times> node list) list \<Rightarrow> ComplexityDetail list"
and own_points_items :: "config \<Rightarrow> node list \<Rightarrow> ComplexityDetail list" where
  "own_points cfg (Node c a fs) = registry_points cfg (Node c a fs) @ own_points_fields cfg fs"
| "own_points_fields cfg [] = []"
| "own_points_fields cfg ((f, v) # rest) = own_points_items cfg v @ own_points_fields cfg rest"
| "own_points_items cfg [] = []"
| "own_points_items cfg (item # items) =
     (if is_function_def item then [] else own_points cfg item) @ own_points_items cfg items"

fun nested_points :: "config \<Rightarrow> node \<Rightarrow> ComplexityDetail list"
and nested_points_fields :: "config \<Rightarrow> (string \<times> node list) list \<Rightarrow> ComplexityDetail list"
and nested_points_items :: "config \<Rightarrow> node list \<Rightarrow> ComplexityDetail list" where
  "nested_points cfg (Node c a fs) = nested_points_fields cfg fs"
| "nested_points_fields cfg [] = []"
| "nested_points_fields cfg ((f, v) # rest) =
     nested_points_items cfg v @ nested_points_fields cfg rest"
| "nested_points_items cfg [] = []"
| "nested_points_items cfg (item # items) =
     (if is_function_def item then counter.details (counting_pass cfg item)
      else nested_points cfg item) @ nested_points_items cfg items"

text \<open>Names and scores of the records in a result, in order.\<close>

definition recorded_names :: "analysis_result \<Rightarrow> string option list" where
  "recorded_names r = map function_info.name (result_functions r)"

definition recorded_complexities :: "analysis_result \<Rightarrow> int list" where
  "recorded_complexities r = map function_info.complexity (result_functions r)"

subsection \<open>Decision points, in the specification's words\<close>

text \<open>The constructs of the specification's construct-to-weight table.\<close>

definition decision_point_class :: "cls \<Rightarrow> bool" where
  "decision_point_class c =
     (c \<in> {ast_If, ast_While, ast_For, ast_ExceptHandler, ast_Assert, ast_With, ast_IfExp,
           ast_BoolOp, ast_ListComp, ast_SetComp, ast_DictComp, ast_GeneratorExp, ast_Match})"

fun decision_nodes :: "node \<Rightarrow> nat"
and decision_nodes_fields :: "(string \<times> node list) list \<Rightarrow> nat"
and decision_nodes_items :: "node list \<Rightarrow> nat" where
  "decision_nodes (Node c a fs) =
     (if decision_point_class c then 1 else 0) + decision_nodes_fields fs"
| "decision_nodes_fields [] = 0"
| "decision_nodes_fields ((f, v) # rest) = decision_nodes_items v + decision_nodes_fields rest"
| "decision_nodes_items [] = 0"
| "decision_nodes_items (item # items) = decision_nodes item + decision_nodes_items items"

text \<open>The nodes of a subtree whose class is in the registry.\<close>

fun registry_nodes :: "node \<Rightarrow> nat"
and registry_nodes_fields :: "(string \<times> node list) list \<Rightarrow> nat"
and registry_nodes_items :: "node list \<Rightarrow> nat" where
  "registry_nodes (Node c a fs) =
     (if c \<in> set (map fst SIMPLE_HANDLERS) then 1 else 0) + registry_nodes_fields fs"
| "registry_nodes_fields [] = 0"
| "registry_nodes_fields ((f, v) # rest) = registry_nodes_items v + registry_nodes_fields rest"
| "registry_nodes_items [] = 0"
| "registry_nodes_items (item # items) = registry_nodes item + registry_nodes_items items"

subsection \<open>Score and contributions\<close>

definition score_matches_details :: "counter \<Rightarrow> bool" where
  "score_matches_details self =
     (counter.complexity self = 1 + sum_list (map amount (counter.details self)))"

definition record_matches_details :: "function_info \<Rightarrow> bool" where
  "record_matches_details info =
     (function_info.complexity info = 1 + sum_list (map amount (function_info.details info)))"

subsection \<open>The resolver's layers, in the specification's words\<close>

text \<open>
  Step 1 of the specification: the named preset if the table has it, else the standard
  preset. Steps 2 and 3: the project file's keys, then a whole preset named by the
  environment, laid over the base.
\<close>

definition spec_base :: "string option \<Rightarrow> config" where
  "spec_base preset =
     (case preset of
        None \<Rightarrow> standard
      | Some p \<Rightarrow> (case map_of PRESETS p of None \<Rightarrow> standard | Some c \<Rightarrow> c))"

definition spec_overlay :: "config \<Rightarrow> config option \<Rightarrow> string option \<Rightarrow> config" where
  "spec_overlay base project env =
     (let c1 = (case project of None \<Rightarrow> base | Some pc \<Rightarrow> dict_update base pc)
      in case env of
           None \<Rightarrow> c1
         | Some e \<Rightarrow> (case map_of PRESETS e of None \<Rightarrow> c1 | Some p \<Rightarrow> dict_update c1 p))"

text \<open>
  What the second step lays over the base: the string-keyed items of the value found, none
  when nothing was found or the value is falsy, or the exception of the update.
\<close>

definition override_items :: "pyval option \<Rightarrow> error + config" where
  "override_items project =
     (case project of
        None \<Rightarrow> Inr []
      | Some v \<Rightarrow> if truthy v then update_items v else Inr [])"

definition no_override :: filesystem where
  "no_override = (\<lambda>dir. Missing)"

section \<open>Example inputs\<close>

text \<open>
  The trees \<^verbatim>\<open>ast.parse\<close> builds for a few one-function modules. Fields that hold no
  node (empty lists, absent optional children, strings and numbers) are left out:
  \<^verbatim>\<open>generic_visit\<close> passes over them.
\<close>

definition no_attrs :: attributes where
  "no_attrs = \<lparr>lineno = None, col_offset = None, end_lineno = None, end_col_offset = None,
               name = None\<rparr>"

definition pos :: "int \<Rightarrow> int \<Rightarrow> int \<Rightarrow> int \<Rightarrow> attributes" where
  "pos l c el ec = \<lparr>lineno = Some l, col_offset = Some c, end_lineno = Some el,
                   end_col_offset = Some ec, name = None\<rparr>"

definition named :: "string \<Rightarrow> attributes \<Rightarrow> attributes" where
  "named s a = a\<lparr>attributes.name := Some s\<rparr>"

text \<open>
  \<^verbatim>\<open>def g(a, b):\<close>
  \<^verbatim>\<open>    return a and b or not a\<close>
\<close>

definition g_function :: node where
  "g_function =
    Node ast_FunctionDef (named ''g'' (pos 1 0 2 27)) [
      (''args'', [
        Node (ast_Other ''arguments'') no_attrs [
          (''args'', [
            Node (ast_Other ''arg'') (pos 1 6 1 7) [],
            Node (ast_Other ''arg'') (pos 1 9 1 10) []])]]),
      (''body'', [
        Node (ast_Other ''Return'') (pos 2 4 2 27) [
          (''value'', [
            Node ast_BoolOp (pos 2 11 2 27) [
              (''op'', [
                Node ast_Or no_attrs []]),
              (''values'', [
                Node ast_BoolOp (pos 2 11 2 18) [
                  (''op'', [
                    Node ast_And no_attrs []]),
                  (''values'', [
                    Node (ast_Other ''Name'') (pos 2 11 2 12) [
                      (''ctx'', [
                        Node (ast_Other ''Load'') no_attrs []])],
                    Node (ast_Other ''Name'') (pos 2 17 2 18) [
                      (''ctx'', [
                        Node (ast_Other ''Load'') no_attrs []])]])],
                Node (ast_Other ''UnaryOp'') (pos 2 22 2 27) [
                  (''op'', [
                    Node (ast_Other ''Not'') no_attrs []]),
                  (''operand'', [
                    Node (ast_Other ''Name'') (pos 2 26 2 27) [
                      (''ctx'', [
                        Node (ast_Other ''Load'') no_attrs []])]])]])]])]])]"

definition g_module :: node where
  "g_module = Node ast_Module no_attrs [(''body'', [g_function])]"

text \<open>
  \<^verbatim>\<open>def f(a, b):\<close>
  \<^verbatim>\<open>    return a and b\<close>
\<close>

definition f_chain :: node where
  "f_chain =
    Node ast_BoolOp (pos 2 11 2 18) [
      (''op'', [
        Node ast_And no_attrs []]),
      (''values'', [
        Node (ast_Other ''Name'') (pos 2 11 2 12) [
          (''ctx'', [
            Node (ast_Other ''Load'') no_attrs []])],
        Node (ast_Other ''Name'') (pos 2 17 2 18) [
          (''ctx'', [
            Node (ast_Other ''Load'') no_attrs []])]])]"

definition f_function :: node where
  "f_function =
    Node ast_FunctionDef (named ''f'' (pos 1 0 2 18)) [
      (''args'', [
        Node (ast_Other ''arguments'') no_attrs [
          (''args'', [
            Node (ast_Other ''arg'') (pos 1 6 1 7) [],
            Node (ast_Other ''arg'') (pos 1 9 1 10) []])]]),
      (''body'', [
        Node (ast_Other ''Return'') (pos 2 4 2 18) [
          (''value'', [
            f_chain])]])]"

definition f_module :: node where
  "f_module = Node ast_Module no_attrs [(''body'', [f_function])]"

text \<open>
  \<^verbatim>\<open>def h(x):\<close>
  \<^verbatim>\<open>    match x:\<close>
  \<^verbatim>\<open>        case 1:\<close>
  \<^verbatim>\<open>            return 2\<close>
  \<^verbatim>\<open>        case _:\<close>
  \<^verbatim>\<open>            return 3\<close>
\<close>

definition h_match :: node where
  "h_match =
    Node ast_Match (pos 2 4 6 20) [
      (''subject'', [
        Node (ast_Other ''Name'') (pos 2 10 2 11) [
          (''ctx'', [
            Node (ast_Other ''Load'') no_attrs []])]]),
      (''cases'', [
        Node ast_match_case no_attrs [
          (''pattern'', [
            Node (ast_Other ''MatchValue'') (pos 3 13 3 14) [
              (''value'', [
                Node (ast_Other ''Constant'') (pos 3 13 3 14) []])]]),
          (''body'', [
            Node (ast_Other ''Return'') (pos 4 12 4 20) [
              (''value'', [
                Node (ast_Other ''Constant'') (pos 4 19 4 20) []])]])],
        Node ast_match_case no_attrs [
          (''pattern'', [
            Node ast_MatchAs (pos 5 13 5 14) []]),
          (''body'', [
            Node (ast_Other ''Return'') (pos 6 12 6 20) [
              (''value'', [
                Node (ast_Other ''Constant'') (pos 6 19 6 20) []])]])]])]"

definition h_function :: node where
  "h_function =
    Node ast_FunctionDef (named ''h'' (pos 1 0 6 20)) [
      (''args'', [
        Node (ast_Other ''arguments'') no_attrs [
          (''args'', [
            Node (ast_Other ''arg'') (pos 1 6 1 7) []])]]),
      (''body'', [
        h_match])]"

definition h_module :: node where
  "h_module = Node ast_Module no_attrs [(''body'', [h_function])]"

text \<open>
  \<^verbatim>\<open>def outer(x):\<close>
  \<^verbatim>\<open>    def inner(y):\<close>
  \<^verbatim>\<open>        if y:\<close>
  \<^verbatim>\<open>            return 1\<close>
  \<^verbatim>\<open>        return 0\<close>
  \<^verbatim>\<open>    return inner(x)\<close>
\<close>

definition outer_function :: node where
  "outer_function =
    Node ast_FunctionDef (named ''outer'' (pos 1 0 6 19)) [
      (''args'', [
        Node (ast_Other ''arguments'') no_attrs [
          (''args'', [
            Node (ast_Other ''arg'') (pos 1 10 1 11) []])]]),
      (''body'', [
        Node ast_FunctionDef (named ''inner'' (pos 2 4 5 16)) [
          (''args'', [
            Node (ast_Other ''arguments'') no_attrs [
              (''args'', [
                Node (ast_Other ''arg'') (pos 2 14 2 15) []])]]),
          (''body'', [
            Node ast_If (pos 3 8 4 20) [
              (''test'', [
                Node (ast_Other ''Name'') (pos 3 11 3 12) [
                  (''ctx'', [
                    Node (ast_Other ''Load'') no_attrs []])]]),
              (''body'', [
                Node (ast_Other ''Return'') (pos 4 12 4 20) [
                  (''value'', [
                    Node (ast_Other ''Constant'') (pos 4 19 4 20) []])]])],
            Node (ast_Other ''Return'') (pos 5 8 5 16) [
              (''value'', [
                Node (ast_Other ''Constant'') (pos 5 15 5 16) []])]])],
        Node (ast_Other ''Return'') (pos 6 4 6 19) [
          (''value'', [
            Node (ast_Other ''Call'') (pos 6 11 6 19) [
              (''func'', [
                Node (ast_Other ''Name'') (pos 6 11 6 16) [
                  (''ctx'', [
                    Node (ast_Other ''Load'') no_attrs []])]]),
              (''args'', [
                Node (ast_Other ''Name'') (pos 6 17 6 18) [
                  (''ctx'', [
                    Node (ast_Other ''Load'') no_attrs []])]])]])]])]"

definition outer_module :: node where
  "outer_module = Node ast_Module no_attrs [(''body'', [outer_function])]"

text \<open>
  \<^verbatim>\<open>def k(x):\<close>
  \<^verbatim>\<open>    return x\<close>
\<close>

definition k_function :: node where
  "k_function =
    Node ast_FunctionDef (named ''k'' (pos 1 0 2 12)) [
      (''args'', [
        Node (ast_Other ''arguments'') no_attrs [
          (''args'', [
            Node (ast_Other ''arg'') (pos 1 6 1 7) []])]]),
      (''body'', [
        Node (ast_Other ''Return'') (pos 2 4 2 12) [
          (''value'', [
            Node (ast_Other ''Name'') (pos 2 11 2 12) [
              (''ctx'', [
                Node (ast_Other ''Load'') no_attrs []])]])]])]"

definition k_module :: node where
  "k_module = Node ast_Module no_attrs [(''body'', [k_function])]"

text \<open>
  \<^verbatim>\<open>def w(x):\<close>
  \<^verbatim>\<open>    assert x\<close>
  \<^verbatim>\<open>    with x:\<close>
  \<^verbatim>\<open>        if x:\<close>
  \<^verbatim>\<open>            pass\<close>
\<close>

definition w_function :: node where
  "w_function =
    Node ast_FunctionDef (named ''w'' (pos 1 0 5 16)) [
      (''args'', [
        Node (ast_Other ''arguments'') no_attrs [
          (''args'', [
            Node (ast_Other ''arg'') (pos 1 6 1 7) []])]]),
      (''body'', [
        Node ast_Assert (pos 2 4 2 12) [
          (''test'', [
            Node (ast_Other ''Name'') (pos 2 11 2 12) [
              (''ctx'', [
                Node (ast_Other ''Load'') no_attrs []])]])],
        Node ast_With (pos 3 4 5 16) [
          (''items'', [
            Node (ast_Other ''withitem'') no_attrs [
              (''context_expr'', [
                Node (ast_Other ''Name'') (pos 3 9 3 10) [
                  (''ctx'', [
                    Node (ast_Other ''Load'') no_attrs []])]])]]),
          (''body'', [
            Node ast_If (pos 4 8 5 16) [
              (''test'', [
                Node (ast_Other ''Name'') (pos 4 11 4 12) [
                  (''ctx'', [
                    Node (ast_Other ''Load'') no_attrs []])]]),
              (''body'', [
                Node (ast_Other ''Pass'') (pos 5 12 5 16) []])]])]])]"

definition w_module :: node where
  "w_module = Node ast_Module no_attrs [(''body'', [w_function])]"

text \<open>
  \<^verbatim>\<open>def lc(xs):\<close>
  \<^verbatim>\<open>    return [x for x in xs if x]\<close>
\<close>

definition lc_comp :: node where
  "lc_comp =
    Node ast_ListComp (pos 2 11 2 31) [
      (''elt'', [
        Node (ast_Other ''Name'') (pos 2 12 2 13) [
          (''ctx'', [
            Node (ast_Other ''Load'') no_attrs []])]]),
      (''generators'', [
        Node ast_comprehension no_attrs [
          (''target'', [
            Node (ast_Other ''Name'') (pos 2 18 2 19) [
              (''ctx'', [
                Node (ast_Other ''Store'') no_attrs []])]]),
          (''iter'', [
            Node (ast_Other ''Name'') (pos 2 23 2 25) [
              (''ctx'', [
                Node (ast_Other ''Load'') no_attrs []])]]),
          (''ifs'', [
            Node (ast_Other ''Name'') (pos 2 29 2 30) [
              (''ctx'', [
                Node (ast_Other ''Load'') no_attrs []])]])]])]"

definition lc_function :: node where
  "lc_function =
    Node ast_FunctionDef (named ''lc'' (pos 1 0 2 31)) [
      (''args'', [
        Node (ast_Other ''arguments'') no_attrs [
          (''args'', [
            Node (ast_Other ''arg'') (pos 1 7 1 9) []])]]),
      (''body'', [
        Node (ast_Other ''Return'') (pos 2 4 2 31) [
          (''value'', [
            lc_comp])]])]"

definition lc_module :: node where
  "lc_module = Node ast_Module no_attrs [(''body'', [lc_function])]"

text \<open>A project in \<^verbatim>\<open>/home/proj\<close> whose override file does not parse.\<close>

definition broken_fs :: filesystem where
  "broken_fs = (\<lambda>dir. if dir = [''home'', ''proj''] then Unreadable ''Expecting value''
                      else Missing)"

text \<open>
  The same project with an override file that holds the JSON document \<^verbatim>\<open>[1, 2]\<close>,
  and with one that holds the object \<^verbatim>\<open>{"countIf": false}\<close>.
\<close>

definition list_fs :: filesystem where
  "list_fs = (\<lambda>dir. if dir = [''home'', ''proj''] then Loaded (PList [PInt 1, PInt 2])
                    else Missing)"

definition object_fs :: filesystem where
  "object_fs = (\<lambda>dir. if dir = [''home'', ''proj'']
                      then Loaded (PDict [(''countIf'', PBool False)])
                      else Missing)"

section \<open>Properties of the engine and of the resolver\<close>

subsection \<open>The pass as a function of the tree\<close>

lemma record_points_Nil: "record_points [] self = self"
  by (simp add: record_points_def)

lemma record_points_append:
  "record_points qs (record_points ps self) = record_points (ps @ qs) self"
  by (simp add: record_points_def)

lemma record_points_config: "counter.config (record_points ps self) = counter.config self"
  by (simp add: record_points_def)

lemma add_complexity_points:
  "add_complexity a t l d self =
     record_points [\<lparr>type = t, line = l, amount = a, description = d\<rparr>] self"
  by (simp add: add_complexity_def record_points_def)

lemma simple_handlers_points:
  "simple_handlers hs n self =
     record_points
       (case map_of hs (cls n) of
          None \<Rightarrow> []
        | Some (type_name, desc, config_key) \<Rightarrow>
            if config_get (counter.config self) config_key
            then [\<lparr>type = type_name, line = lineno_or n 0, amount = 1, description = desc\<rparr>]
            else []) self"
  by (induction hs n self rule: simple_handlers.induct)
     (simp_all add: record_points_Nil add_complexity_points)

lemma registry_loop_points:
  "simple_handlers SIMPLE_HANDLERS n self =
     record_points (registry_points (counter.config self) n) self"
  by (simp add: simple_handlers_points registry_points_def)

lemma counter_visit_points:
  "counter_visit self n = record_points (points (counter.config self) n) self"
  "counter_visit_fields self fs = record_points (points_fields (counter.config self) fs) self"
  "counter_visit_items self xs = record_points (points_items (counter.config self) xs) self"
proof (induction self n and self fs and self xs
       rule: counter_visit_counter_visit_fields_counter_visit_items.induct)
  case (1 self c a fs)
  then show ?case
    by (simp add: registry_loop_points record_points_config record_points_append)
next
  case (2 self)
  show ?case by (simp add: record_points_Nil)
next
  case (3 self f v rest)
  then show ?case by (simp add: record_points_config record_points_append)
next
  case (4 self)
  show ?case by (simp add: record_points_Nil)
next
  case (5 self item items)
  then show ?case by (simp add: record_points_config record_points_append)
qed

lemma registry_points_amount:
  "sum_list (map amount (registry_points cfg n)) = int (length (registry_points cfg n))"
  by (simp add: registry_points_def split: option.split)

lemma points_amount:
  "sum_list (map amount (points cfg n)) = int (length (points cfg n))"
  "sum_list (map amount (points_fields cfg fs)) = int (length (points_fields cfg fs))"
  "sum_list (map amount (points_items cfg xs)) = int (length (points_items cfg xs))"
  by (induction cfg n and cfg fs and cfg xs rule: points_points_fields_points_items.induct)
     (simp_all add: registry_points_amount)

lemma counting_pass_details: "counter.details (counting_pass cfg n) = points cfg n"
  by (simp add: counting_pass_def counter_visit_points record_points_def ComplexityCounter_def)

lemma counting_pass_complexity:
  "counter.complexity (counting_pass cfg n) = 1 + int (length (points cfg n))"
  by (simp add: counting_pass_def counter_visit_points record_points_def ComplexityCounter_def
        points_amount)

subsection \<open>Nested function definitions\<close>

lemma points_split:
  "length (points cfg n) = length (own_points cfg n) + length (nested_points cfg n)"
  "length (points_fields cfg fs) =
     length (own_points_fields cfg fs) + length (nested_points_fields cfg fs)"
  "length (points_items cfg xs) =
     length (own_points_items cfg xs) + length (nested_points_items cfg xs)"
proof (induction cfg n and cfg fs and cfg xs rule: points_points_fields_points_items.induct)
  case (5 cfg item items)
  then show ?case by (simp add: counting_pass_details)
qed simp_all

subsection \<open>Monotonicity\<close>

lemma registry_points_mono:
  assumes "\<And>k. config_get c1 k \<Longrightarrow> config_get c2 k"
  shows "length (registry_points c1 n) \<le> length (registry_points c2 n)"
  using assms by (auto simp: registry_points_def split: option.split)

lemma points_mono:
  assumes "\<And>k. config_get c1 k \<Longrightarrow> config_get c2 k"
  shows "length (points c1 n) \<le> length (points c2 n)"
    and "length (points_fields c1 fs) \<le> length (points_fields c2 fs)"
    and "length (points_items c1 xs) \<le> length (points_items c2 xs)"
proof (induction n and fs and xs
       rule: registry_nodes_registry_nodes_fields_registry_nodes_items.induct)
  case (1 c a fs)
  then show ?case using registry_points_mono [of c1 c2 "Node c a fs"] assms
    by (simp add: add_mono)
qed (simp_all add: add_mono)

lemma config_get_update:
  "config_get (AList.update key (PBool True) cfg) k = (k = key \<or> config_get cfg k)"
  by (simp add: config_get_def update_conv')

lemma strict_le_standard: "config_get strict_mccabe k \<Longrightarrow> config_get standard k"
  by (simp add: config_get_def strict_mccabe_def standard_def split: if_splits)

lemma standard_le_comprehensive: "config_get standard k \<Longrightarrow> config_get comprehensive k"
  by (simp add: config_get_def standard_def comprehensive_def split: if_splits)

lemma counter_visit_never_decreases:
  "counter.complexity self \<le> counter.complexity (counter_visit self n)"
  by (simp add: counter_visit_points record_points_def points_amount)

subsection \<open>No decision points\<close>

lemma registry_is_decision_point:
  "\<not> decision_point_class (cls n) \<Longrightarrow> registry_points cfg n = []"
  by (simp add: registry_points_def decision_point_class_def SIMPLE_HANDLERS_def)

lemma no_decision_nodes_no_points:
  "decision_nodes n = 0 \<Longrightarrow> points cfg n = []"
  "decision_nodes_fields fs = 0 \<Longrightarrow> points_fields cfg fs = []"
  "decision_nodes_items xs = 0 \<Longrightarrow> points_items cfg xs = []"
proof (induction n and fs and xs
       rule: decision_nodes_decision_nodes_fields_decision_nodes_items.induct)
  case (1 c a fs)
  then show ?case
    using registry_is_decision_point [of "Node c a fs" cfg] by (simp split: if_splits)
qed simp_all

lemma visit_function_record:
  "functions (visit_function v n async) =
     functions v @
     [\<lparr>name = attributes.name (attrs n), line = lineno (attrs n), col = col_offset (attrs n),
       end_line = end_lineno (attrs n), end_col = end_col_offset (attrs n), is_async = async,
       complexity = counter.complexity (counting_pass (visitor.config v) n),
       details = counter.details (counting_pass (visitor.config v) n)\<rparr>]"
  by (simp add: visit_function_def counting_pass_def Let_def)

subsection \<open>Score and contributions\<close>

lemma record_points_invariant:
  "collect_details self \<Longrightarrow> score_matches_details self \<Longrightarrow>
   score_matches_details (record_points ps self)"
  by (simp add: score_matches_details_def record_points_def)

lemma counting_pass_record_matches:
  "record_matches_details
     \<lparr>name = nm, line = l, col = c, end_line = el, end_col = ec, is_async = async,
      complexity = counter.complexity (counting_pass cfg n),
      details = counter.details (counting_pass cfg n)\<rparr>"
  by (simp add: record_matches_details_def counting_pass_details counting_pass_complexity
        points_amount)

lemma visitor_visit_records_match:
  "list_all record_matches_details (functions v) \<Longrightarrow>
   list_all record_matches_details (functions (visitor_visit v n))"
  "list_all record_matches_details (functions v) \<Longrightarrow>
   list_all record_matches_details (functions (visitor_visit_fields v fs))"
  "list_all record_matches_details (functions v) \<Longrightarrow>
   list_all record_matches_details (functions (visitor_visit_items v xs))"
proof (induction v n and v fs and v xs
       rule: visitor_visit_visitor_visit_fields_visitor_visit_items.induct)
  case (1 self c a fs)
  then show ?case
    by (simp add: visit_FunctionDef_def visit_AsyncFunctionDef_def visit_function_record
          counting_pass_record_matches)
qed simp_all

lemma run_visitor_records_match:
  "list_all record_matches_details (result_functions (run_visitor cfg tree))"
  by (simp add: run_visitor_def Let_def visitor_visit_records_match ComplexityVisitor_def)

subsection \<open>The empty rule set\<close>

lemma registry_points_empty_config:
  "length (registry_points [] n) = (if cls n \<in> set (map fst SIMPLE_HANDLERS) then 1 else 0)"
proof (cases "map_of SIMPLE_HANDLERS (cls n)")
  case None
  then have "cls n \<notin> fst ` set SIMPLE_HANDLERS" by (simp add: map_of_eq_None_iff)
  with None show ?thesis by (simp add: registry_points_def)
next
  case (Some h)
  then have "cls n \<in> fst ` set SIMPLE_HANDLERS"
    using map_of_eq_None_iff [of SIMPLE_HANDLERS "cls n"] by simp
  with Some show ?thesis by (simp add: registry_points_def config_get_def split: prod.split)
qed

lemma points_empty_config:
  "length (points [] n) = registry_nodes n"
  "length (points_fields [] fs) = registry_nodes_fields fs"
  "length (points_items [] xs) = registry_nodes_items xs"
proof (induction n and fs and xs
       rule: registry_nodes_registry_nodes_fields_registry_nodes_items.induct)
  case (1 c a fs)
  then show ?case using registry_points_empty_config [of "Node c a fs"] by simp
qed simp_all

subsection \<open>The resolver\<close>

lemma dict_update_Nil: "dict_update d [] = d"
  by (simp add: dict_update_def)

lemma preset_key_iff: "p \<in> fst ` set PRESETS \<longleftrightarrow> map_of PRESETS p \<noteq> None"
  by (simp add: map_of_eq_None_iff)

lemma empty_name_no_preset: "map_of PRESETS [] = None"
  by (simp add: PRESETS_def)

lemma standard_preset: "map_of PRESETS ''standard'' = Some standard"
  by (simp add: PRESETS_def)

lemma update_element_no_KeyError: "update_element i x \<noteq> Inl (KeyError k)"
  by (simp add: update_element_def split: pyval.split list.split prod.split)

lemma update_elements_no_KeyError: "update_elements i xs \<noteq> Inl (KeyError k)"
proof (induction xs arbitrary: i)
  case Nil
  show ?case by simp
next
  case (Cons x xs)
  show ?case
    using update_element_no_KeyError [of i x k] Cons.IH [of "Suc i"]
    by (auto split: sum.split)
qed

lemma override_items_no_KeyError: "override_items project \<noteq> Inl (KeyError k)"
  by (simp add: override_items_def update_items_def update_elements_no_KeyError
        not_iterable_def split: option.split pyval.split)

lemma load_config_layers:
  "load_config fs env fp preset =
     (case override_items (fst (find_project_config fs fp)) of
        Inl e \<Rightarrow> (Inl e, snd (find_project_config fs fp))
      | Inr items \<Rightarrow>
          (Inr (spec_overlay (spec_base preset) (Some items) env),
           snd (find_project_config fs fp)))"
proof -
  obtain pc w where f: "find_project_config fs fp = (pc, w)" by (cases "find_project_config fs fp")
  have base: "(case preset of
                 None \<Rightarrow> PRESETS_getitem ''standard''
               | Some p \<Rightarrow> if p \<noteq> [] \<and> p \<in> set (map fst PRESETS)
                           then PRESETS_getitem p else PRESETS_getitem ''standard'')
              = Inr (spec_base preset)"
    using empty_name_no_preset
    by (auto simp: spec_base_def PRESETS_getitem_def standard_preset preset_key_iff
             split: option.split)
  have proj: "(case pc of None \<Rightarrow> Inr (spec_base preset)
               | Some v \<Rightarrow> if truthy v then dict_update_value (spec_base preset) v
                            else Inr (spec_base preset))
              = (case override_items pc of
                   Inl e \<Rightarrow> Inl e
                 | Inr items \<Rightarrow> Inr (dict_update (spec_base preset) items))"
    by (simp add: override_items_def dict_update_value_def dict_update_Nil
          split: option.split sum.split)
  show ?thesis
    unfolding load_config_def base
    using empty_name_no_preset
    by (auto simp: f proj spec_overlay_def Let_def PRESETS_getitem_def preset_key_iff
             split: option.split sum.split)
qed

lemma loop_no_override: "find_project_config_loop no_override dir = (None, [])"
proof (induction "length dir" arbitrary: dir)
  case 0
  then show ?case by (subst find_project_config_loop.simps) simp
next
  case (Suc n)
  then have "length (butlast dir) = n" by simp
  then have "find_project_config_loop no_override (butlast dir) = (None, [])"
    using Suc.hyps(1) by simp
  then show ?case
    by (subst find_project_config_loop.simps) (simp add: no_override_def Let_def)
qed

lemma loop_unreadable:
  assumes "d \<noteq> []" and "fs d = Unreadable e"
  shows "(\<forall>k. length d < k \<and> k \<le> length (d @ rest) \<longrightarrow> fs (take k (d @ rest)) = Missing) \<Longrightarrow>
         find_project_config_loop fs (d @ rest) = (None, [warning d e])"
proof (induction rest rule: rev_induct)
  case Nil
  show ?case using assms by (subst find_project_config_loop.simps) simp
next
  case (snoc x xs)
  have here: "fs (d @ xs @ [x]) = Missing"
    using snoc.prems [rule_format, of "length (d @ xs @ [x])"] by simp
  have "\<forall>k. length d < k \<and> k \<le> length (d @ xs) \<longrightarrow> fs (take k (d @ xs)) = Missing"
  proof (intro allI impI)
    fix k assume k: "length d < k \<and> k \<le> length (d @ xs)"
    then have "fs (take k (d @ xs @ [x])) = Missing"
      using snoc.prems [rule_format, of k] by simp
    moreover have "take k (d @ xs @ [x]) = take k (d @ xs)" using k by simp
    ultimately show "fs (take k (d @ xs)) = Missing" by simp
  qed
  then have ih: "find_project_config_loop fs (d @ xs) = (None, [warning d e])"
    by (rule snoc.IH)
  have "find_project_config_loop fs (d @ xs @ [x]) = find_project_config_loop fs (d @ xs)"
    by (subst find_project_config_loop.simps) (simp add: here Let_def butlast_append)
  with ih show ?case by simp
qed

lemma analyze_file_given_config:
  "analyze_file fs env arg fp (Parsed tree) (Some c) = (run_visitor c tree, [])"
  by (simp add: analyze_file_def)

lemma analyze_file_independent:
  "analyze_file fs env arg fp src (Some c) = analyze_file fs' env arg fp src (Some c)"
  by (simp add: analyze_file_def split: source.split)

lemma analyze_file_quiet: "snd (analyze_file fs env arg fp src (Some c)) = []"
  by (simp add: analyze_file_def split: source.split)

text \<open>
  The branch of \<^verbatim>\<open>find_project_config\<close> that has the \<^verbatim>\<open>try\<close>: when reading the
  first override file on the way up raises, one warning is printed, the resolver returns
  what it returns with no override file anywhere, and \<^verbatim>\<open>main\<close> gives the result it
  gives then.
\<close>

lemma unreadable_override_ignored:
  assumes "d \<noteq> []"
    and "butlast file_path = d @ rest"
    and "fs d = Unreadable e"
    and "\<forall>k. length d < k \<and> k \<le> length (d @ rest) \<longrightarrow> fs (take k (d @ rest)) = Missing"
  shows "find_project_config fs file_path = (None, [warning d e])"
    and "load_config fs env file_path preset =
           (fst (load_config no_override env file_path preset), [warning d e])"
    and "main_analysis fs env arg file_path preset src =
           (fst (main_analysis no_override env arg file_path preset src), [warning d e])"
proof -
  show found: "find_project_config fs file_path = (None, [warning d e])"
    using loop_unreadable [OF assms(1) assms(3) assms(4)]
    by (simp add: find_project_config_def assms(2))
  have none: "find_project_config no_override file_path = (None, [])"
    by (simp add: find_project_config_def loop_no_override)
  have a: "load_config fs env file_path preset =
             (Inr (spec_overlay (spec_base preset) (Some []) env), [warning d e])"
    by (simp add: load_config_layers found override_items_def)
  have b: "load_config no_override env file_path preset =
             (Inr (spec_overlay (spec_base preset) (Some []) env), [])"
    by (simp add: load_config_layers none override_items_def)
  show "load_config fs env file_path preset =
          (fst (load_config no_override env file_path preset), [warning d e])"
    by (simp add: a b)
  show "main_analysis fs env arg file_path preset src =
          (fst (main_analysis no_override env arg file_path preset src), [warning d e])"
    using analyze_file_quiet [of fs env arg file_path src
            "spec_overlay (spec_base preset) (Some []) env"]
          analyze_file_independent [of fs env arg file_path src
            "spec_overlay (spec_base preset) (Some []) env" no_override]
    by (auto simp: main_analysis_def a b split: prod.split)
qed

text \<open>An override file that holds an object is laid over the preset.\<close>

lemma object_override_example:
  "load_config object_fs None [''home'', ''proj'', ''src'', ''a.py''] None =
     (Inr (AList.update ''countIf'' (PBool False) standard), [])"
  by (simp add: load_config_def find_project_config_def find_project_config_loop.simps
        object_fs_def PRESETS_getitem_def PRESETS_def dict_update_value_def update_items_def
        dict_update_def Let_def)

lemma unreadable_override_example:
  "main_analysis broken_fs None ''src/a.py'' [''home'', ''proj'', ''src'', ''a.py''] None
     (Parsed k_module) =
     (Inr (run_visitor standard k_module),
      [''Warning: Failed to load /home/proj/.complexity.json: Expecting value''])"
  by (simp add: main_analysis_def load_config_def find_project_config_def
        find_project_config_loop.simps broken_fs_def PRESETS_getitem_def PRESETS_def
        analyze_file_def warning_def path_str_def Let_def)

section \<open>Evaluating the examples\<close>

lemmas example_defs =
  g_module_def g_function_def f_module_def f_function_def f_chain_def h_module_def
  h_function_def h_match_def outer_module_def outer_function_def k_module_def k_function_def
  w_module_def w_function_def lc_module_def lc_function_def lc_comp_def pos_def named_def
  no_attrs_def

lemmas engine_defs =
  run_visitor_def ComplexityVisitor_def visit_FunctionDef_def visit_AsyncFunctionDef_def
  visit_function_def counting_pass_def ComplexityCounter_def SIMPLE_HANDLERS_def
  config_get_def add_complexity_def lineno_or_def standard_def strict_mccabe_def
  comprehensive_def recorded_names_def recorded_complexities_def

text \<open>
  The methods below are never reached by a pass; called by hand on the chain of
  \<^verbatim>\<open>f\<close>, on the match statement of \<^verbatim>\<open>h\<close> and on the comprehension of
  \<^verbatim>\<open>lc\<close>, they record what the pass leaves out.
\<close>

lemma visit_BoolOp_called_directly:
  "counter.details (visit_BoolOp (ComplexityCounter standard True) f_chain) =
     [\<lparr>type = ''bool_op'', line = 2, amount = 1, description = ''1 and operator(s)''\<rparr>]"
  by (simp add: visit_BoolOp_def generic_visit_def field_def example_defs engine_defs
        str_int_def digit_char_def Let_def)

lemma visit_Match_called_directly:
  "counter.details (visit_Match (ComplexityCounter standard True) h_match) =
     [\<lparr>type = ''match_case'', line = 2, amount = 1, description = ''match case''\<rparr>]"
  by (simp add: visit_Match_def generic_visit_def field_def example_defs engine_defs)

lemma visit_ListComp_called_directly:
  "counter.details (visit_ListComp (ComplexityCounter [] True) lc_comp) =
     [\<lparr>type = ''list_comp'', line = 2, amount = 1, description = ''list comprehension''\<rparr>,
      \<lparr>type = ''comp_if'', line = 2, amount = 1, description = ''comprehension if''\<rparr>]"
  by (simp add: visit_ListComp_def handle_comprehension_def generic_visit_def field_def
        example_defs engine_defs Let_def)

section \<open>The claims\<close>

subsection \<open>C1: nested function definitions\<close>

text \<open>
  C1 says that the score of a function with a nested function definition leaves out the
  decision points inside the nested definition, and that the nested function has a record
  of its own. On \<^verbatim>\<open>outer\<close>, whose only \<^verbatim>\<open>if\<close> lies inside \<^verbatim>\<open>inner\<close>, the
  pass scores 2 where the body of \<^verbatim>\<open>outer\<close> alone gives 1, and the result holds one
  record, that of \<^verbatim>\<open>outer\<close>.
\<close>

theorem C1_nested_counterexample:
  "counter.complexity (counting_pass standard outer_function)
     \<noteq> 1 + int (length (own_points standard outer_function))
   \<and> Some ''inner'' \<notin> set (recorded_names (run_visitor standard outer_module))
   \<and> recorded_names (run_visitor standard outer_module) = [Some ''outer'']
   \<and> recorded_complexities (run_visitor standard outer_module) = [2]"
  by (simp add: example_defs engine_defs registry_points_def is_function_def_def)

text \<open>
  C1 as amended: the score of a function is 1 plus the enabled registry decision points of
  its whole subtree, those of its own body and those inside function definitions nested
  in it; the latter are what the pass reports when run on the nested definition itself.
  The same number is the score of the record \<^verbatim>\<open>_visit_function\<close> appends.
\<close>

theorem C1_outer_score_includes_nested:
  "counter.complexity (counting_pass cfg n) =
     1 + int (length (own_points cfg n)) + int (length (nested_points cfg n))
   \<and> function_info.complexity (last (functions (visit_function v n async))) =
     1 + int (length (own_points (visitor.config v) n))
       + int (length (nested_points (visitor.config v) n))"
  by (simp add: counting_pass_complexity points_split(1) visit_function_record)

theorem C1_outer_score_includes_nested_witness:
  "counter.complexity (counting_pass standard outer_function) = 2
   \<and> length (own_points standard outer_function) = 0
   \<and> length (nested_points standard outer_function) = 1"
  using C1_outer_score_includes_nested [of standard outer_function "ComplexityVisitor None" False]
  by (simp add: example_defs engine_defs registry_points_def is_function_def_def)

subsection \<open>C2: the example \<^verbatim>\<open>a and b or not a\<close>\<close>

text \<open>
  C2 says that \<^verbatim>\<open>g\<close> scores 1 with no contribution under the strict preset and 2
  under the standard preset. Under the standard preset the analysis scores 1.
\<close>

theorem C2_standard_counterexample:
  "recorded_complexities (run_visitor standard g_module) = [1]
   \<and> recorded_complexities (run_visitor standard g_module) \<noteq> [2]"
  by (simp add: example_defs engine_defs)

text \<open>
  C2 as amended: under the strict preset the analysis of \<^verbatim>\<open>g\<close> yields one record, of
  complexity 1 and with an empty contribution list.
\<close>

theorem C2_strict_preset:
  "run_visitor strict_mccabe g_module =
     Success [\<lparr>name = Some ''g'', line = Some 1, col = Some 0, end_line = Some 2,
               end_col = Some 27, is_async = False, complexity = 1, details = []\<rparr>]
       1 (PStr ''Strict McCabe'')"
  by (simp add: example_defs engine_defs)

subsection \<open>C3: boolean-operator chains\<close>

text \<open>
  C3 says that a chain of N operands adds N - 1 as one contribution when boolean-operator
  counting is enabled. For \<^verbatim>\<open>f\<close>, whose body is one chain of two operands, the
  analysis under the standard preset (\<^verbatim>\<open>countBoolOp\<close> set) yields complexity 1 and no
  contribution.
\<close>

theorem C3_chain_not_counted:
  "run_visitor standard f_module =
     Success [\<lparr>name = Some ''f'', line = Some 1, col = Some 0, end_line = Some 2,
               end_col = Some 18, is_async = False, complexity = 1, details = []\<rparr>]
       1 (PStr ''Standard (Industry Common)'')"
  by (simp add: example_defs engine_defs)

subsection \<open>C4: pattern-match statements\<close>

text \<open>
  C4 says that a match statement with K cases, one of them the bare default, adds K - 1
  when pattern-match counting is enabled. For \<^verbatim>\<open>h\<close>, with one value case and the
  default, the analysis under the standard preset (\<^verbatim>\<open>countMatch\<close> set) yields
  complexity 1 and no contribution.
\<close>

theorem C4_match_not_counted:
  "run_visitor standard h_module =
     Success [\<lparr>name = Some ''h'', line = Some 1, col = Some 0, end_line = Some 6,
               end_col = Some 20, is_async = False, complexity = 1, details = []\<rparr>]
       1 (PStr ''Standard (Industry Common)'')"
  by (simp add: example_defs engine_defs)

subsection \<open>C5: monotonicity\<close>

text \<open>
  C5: for a fixed function, setting any one flag to true never lowers the score of the
  pass; the strict preset scores at most what the standard preset scores, and the
  standard preset at most what the comprehensive preset scores; a fresh counter starts at
  1, and visiting a node, from any state of the counter, never lowers the score.
\<close>

theorem C5_score_monotone:
  "counter.complexity (counting_pass cfg n)
     \<le> counter.complexity (counting_pass (AList.update key (PBool True) cfg) n)
   \<and> counter.complexity (counting_pass strict_mccabe n)
     \<le> counter.complexity (counting_pass standard n)
   \<and> counter.complexity (counting_pass standard n)
     \<le> counter.complexity (counting_pass comprehensive n)
   \<and> counter.complexity (ComplexityCounter cfg cd) = 1
   \<and> counter.complexity self \<le> counter.complexity (counter_visit self m)"
proof -
  have "length (points cfg n) \<le> length (points (AList.update key (PBool True) cfg) n)"
    by (rule points_mono(1)) (simp add: config_get_update)
  moreover have "length (points strict_mccabe n) \<le> length (points standard n)"
    by (rule points_mono(1)) (rule strict_le_standard)
  moreover have "length (points standard n) \<le> length (points comprehensive n)"
    by (rule points_mono(1)) (rule standard_le_comprehensive)
  ultimately show ?thesis
    by (simp add: counting_pass_complexity counter_visit_never_decreases ComplexityCounter_def)
qed

theorem C5_score_monotone_witness:
  "counter.complexity (counting_pass strict_mccabe w_function) = 2
   \<and> counter.complexity (counting_pass standard w_function) = 2
   \<and> counter.complexity (counting_pass comprehensive w_function) = 4
   \<and> counter.complexity (counting_pass (AList.update ''countWith'' (PBool True) standard) w_function) = 3"
  using C5_score_monotone [of standard w_function "''countWith''" True
          "ComplexityCounter standard True" w_function]
  by (simp add: example_defs engine_defs)

subsection \<open>C6: an override file that cannot be used\<close>

text \<open>
  C6 says that an override file that is found but cannot be parsed gives a warning on the
  diagnostic stream, that resolution goes on as if there were no override, and that a
  configuration error never makes the analysis fail. Take the project in
  \<^verbatim>\<open>/home/proj\<close> whose \<^verbatim>\<open>.complexity.json\<close> holds \<^verbatim>\<open>[1, 2]\<close>, which is no
  mapping of flags, and the file \<^verbatim>\<open>src/a.py\<close> in it, which parses.
  \<^verbatim>\<open>find_project_config\<close> returns the list and prints no warning; the update in
  \<^verbatim>\<open>load_config\<close> raises \<^verbatim>\<open>TypeError\<close>; \<^verbatim>\<open>main\<close> ends with that exception and
  no result; and \<^verbatim>\<open>analyze_file\<close>, called with no configuration, returns a failure
  of type \<^verbatim>\<open>unknown\<close>. With no override file the same run succeeds.
\<close>

theorem C6_non_object_override_fails:
  "find_project_config list_fs [''home'', ''proj'', ''src'', ''a.py''] =
     (Some (PList [PInt 1, PInt 2]), [])
   \<and> main_analysis list_fs None ''src/a.py'' [''home'', ''proj'', ''src'', ''a.py''] None
       (Parsed k_module) =
     (Inl (TypeError ''cannot convert dictionary update sequence element #0 to a sequence''),
      [])
   \<and> analyze_file list_fs None ''src/a.py'' [''home'', ''proj'', ''src'', ''a.py'']
       (Parsed k_module) None =
     (Failure ''cannot convert dictionary update sequence element #0 to a sequence''
        ''unknown'' None, [])
   \<and> main_analysis no_override None ''src/a.py'' [''home'', ''proj'', ''src'', ''a.py''] None
       (Parsed k_module) =
     (Inr (run_visitor standard k_module), [])"
  by (simp add: main_analysis_def analyze_file_def load_config_def find_project_config_def
        find_project_config_loop.simps list_fs_def no_override_def PRESETS_getitem_def
        PRESETS_def dict_update_value_def update_items_def update_element_def str_error_def
        str_int_def digit_char_def Let_def)

subsection \<open>C7: the preset name\<close>

text \<open>
  C7: for every preset argument \<^verbatim>\<open>load_config\<close> goes through: no lookup in the preset
  table fails, whatever the name, and the only exception it can raise is that of the second
  step's update, which depends on the override file alone and is the same for every name.
  The base under the overlays is the table's preset of that name when the name is a key
  of the table, and the standard preset for any other name and for no name; with no
  override file and no environment variable the result is that base.
\<close>

theorem C7_preset_name:
  "load_config fs env file_path preset =
     (case override_items (fst (find_project_config fs file_path)) of
        Inl e \<Rightarrow> (Inl e, snd (find_project_config fs file_path))
      | Inr items \<Rightarrow>
          (Inr (spec_overlay (spec_base preset) (Some items) env),
           snd (find_project_config fs file_path)))
   \<and> fst (load_config fs env file_path preset) \<noteq> Inl (KeyError k)
   \<and> spec_base (Some ''strict_mccabe'') = strict_mccabe
   \<and> spec_base (Some ''standard'') = standard
   \<and> spec_base (Some ''comprehensive'') = comprehensive
   \<and> spec_base None = standard
   \<and> (if p \<in> set (map fst PRESETS) then map_of PRESETS p = Some (spec_base (Some p))
       else spec_base (Some p) = standard)
   \<and> load_config no_override None file_path preset = (Inr (spec_base preset), [])"
proof -
  have none: "find_project_config no_override file_path = (None, [])"
    by (simp add: find_project_config_def loop_no_override)
  have last: "load_config no_override None file_path preset = (Inr (spec_base preset), [])"
    by (simp add: load_config_layers none spec_overlay_def override_items_def dict_update_Nil)
  have key: "if p \<in> set (map fst PRESETS) then map_of PRESETS p = Some (spec_base (Some p))
       else spec_base (Some p) = standard"
    using preset_key_iff [of p] by (auto simp: spec_base_def split: option.split)
  have nokey: "fst (load_config fs env file_path preset) \<noteq> Inl (KeyError k)"
    using override_items_no_KeyError [of "fst (find_project_config fs file_path)" k]
    by (auto simp: load_config_layers split: sum.split)
  have bases: "spec_base (Some ''strict_mccabe'') = strict_mccabe
     \<and> spec_base (Some ''standard'') = standard
     \<and> spec_base (Some ''comprehensive'') = comprehensive
     \<and> spec_base None = standard"
    by (simp add: spec_base_def PRESETS_def)
  show ?thesis
    using load_config_layers [of fs env file_path preset] last key nokey bases by blast
qed

theorem C7_preset_name_witness:
  "load_config no_override None [''a.py''] (Some ''no_such_preset'') = (Inr standard, [])
   \<and> load_config no_override None [''a.py''] (Some ''strict_mccabe'') = (Inr strict_mccabe, [])
   \<and> load_config no_override None [''a.py''] None = (Inr standard, [])"
  using C7_preset_name [of no_override None "[''a.py'']" "Some ''no_such_preset''" "''x''" "''x''"]
        C7_preset_name [of no_override None "[''a.py'']" "Some ''strict_mccabe''" "''x''" "''x''"]
        C7_preset_name [of no_override None "[''a.py'']" None "''x''" "''x''"]
  by (simp add: spec_base_def PRESETS_def find_project_config_def
        find_project_config_loop.simps spec_overlay_def override_items_def dict_update_Nil)

subsection \<open>C8: a function with no decision points\<close>

text \<open>
  C8: if no node of a function's subtree is one of the decision-point constructs, the
  pass returns complexity 1 and an empty contribution list, under every rule set, and the
  record appended for the function carries them.
\<close>

theorem C8_no_decision_points:
  assumes "decision_nodes n = 0"
  shows "counter.complexity (counting_pass cfg n) = 1
     \<and> counter.details (counting_pass cfg n) = []
     \<and> functions (visit_function v n async) =
         functions v @
         [\<lparr>name = attributes.name (attrs n), line = lineno (attrs n),
           col = col_offset (attrs n), end_line = end_lineno (attrs n),
           end_col = end_col_offset (attrs n), is_async = async,
           complexity = 1, details = []\<rparr>]"
  using no_decision_nodes_no_points(1) [OF assms]
  by (simp add: counting_pass_complexity counting_pass_details visit_function_record)

theorem C8_no_decision_points_witness:
  "decision_nodes k_function = 0
   \<and> counter.complexity (counting_pass standard k_function) = 1
   \<and> counter.details (counting_pass standard k_function) = []"
proof -
  have h: "decision_nodes k_function = 0"
    by (simp add: example_defs decision_point_class_def)
  show ?thesis
    using h C8_no_decision_points [OF h, of standard "ComplexityVisitor None" False] by simp
qed

subsection \<open>C9: the score is one plus the amounts\<close>

text \<open>
  C9: with details collected, a fresh counter has complexity 1 plus the sum of the
  amounts of its (empty) contribution list; every \<^verbatim>\<open>_add_complexity\<close> adds its amount
  to the score and appends one contribution with that amount, so it keeps the equality,
  and so does every visit of a node; hence the equality holds for the counter a pass
  returns and for every record of an analysis result.
\<close>

theorem C9_score_is_one_plus_amounts:
  "score_matches_details (ComplexityCounter cfg True)
   \<and> (collect_details self \<longrightarrow>
        counter.complexity (add_complexity a t l d self) = counter.complexity self + a
        \<and> counter.details (add_complexity a t l d self) =
            counter.details self @ [\<lparr>type = t, line = l, amount = a, description = d\<rparr>])
   \<and> (collect_details self \<and> score_matches_details self \<longrightarrow>
        score_matches_details (add_complexity a t l d self)
        \<and> score_matches_details (counter_visit self n))
   \<and> score_matches_details (counting_pass cfg n)
   \<and> list_all record_matches_details (result_functions (run_visitor cfg tree))"
proof -
  have init: "score_matches_details (ComplexityCounter cfg True)"
    by (simp add: score_matches_details_def ComplexityCounter_def)
  have coll: "collect_details (ComplexityCounter cfg True)"
    by (simp add: ComplexityCounter_def)
  have pass: "score_matches_details (counting_pass cfg n)"
    unfolding counting_pass_def counter_visit_points
    by (rule record_points_invariant [OF coll init])
  show ?thesis
    using init pass run_visitor_records_match [of cfg tree]
    by (auto simp: add_complexity_points counter_visit_points record_points_invariant)
       (simp_all add: record_points_def)
qed

theorem C9_score_is_one_plus_amounts_witness:
  "counter.complexity (counting_pass comprehensive w_function) = 4
   \<and> map amount (counter.details (counting_pass comprehensive w_function)) = [1, 1, 1]
   \<and> score_matches_details (counting_pass comprehensive w_function)
   \<and> score_matches_details
        (add_complexity 2 ''bool_op'' 7 ''2 and operator(s)'' (counting_pass comprehensive w_function))"
proof -
  have c: "collect_details (counting_pass comprehensive w_function)"
    by (simp add: counting_pass_def counter_visit_points record_points_def ComplexityCounter_def)
  show ?thesis
    using c C9_score_is_one_plus_amounts [of comprehensive "counting_pass comprehensive w_function"
            2 "''bool_op''" 7 "''2 and operator(s)''" w_function w_module]
    by (simp add: example_defs engine_defs)
qed

subsection \<open>C10: a flag that is absent\<close>

text \<open>
  C10 says that a construct whose flag is absent from the rule set is counted, so that the
  empty rule set counts every recognized construct. For \<^verbatim>\<open>lc\<close>, whose body is a
  list comprehension with one \<^verbatim>\<open>for\<close> clause and one filter, the pass run with the
  empty rule set returns complexity 1 and no contribution, where the comprehension and its
  filter should add 1 each.
\<close>

theorem C10_comprehension_not_counted:
  "counter.complexity (counting_pass [] lc_function) = 1
   \<and> counter.details (counting_pass [] lc_function) = []
   \<and> decision_nodes lc_function = 1"
  by (simp add: example_defs engine_defs decision_point_class_def)

end
